theory Spec2Isabelle
  imports Main
begin

section \<open>Python values and exceptions\<close>

text \<open>
  The gateway endpoints of \<^verbatim>\<open>api/endpoints/semantic.py\<close> and the health check of
  \<^verbatim>\<open>api/endpoints/status.py\<close> are embedded as pure functions. Every collaborator that
  the endpoints receive by dependency injection (the LLM client, the intent dispatcher,
  the datastore and cache probes, the clock and the uuid generator) is a parameter; every
  \<^verbatim>\<open>raise\<close> is a value of the type \<open>exn\<close>; every call to a collaborator that a claim
  speaks about is recorded in an event trace returned beside the result. A log call that
  passes the message alone returns without reading it and is not modelled. The two
  \<^verbatim>\<open>log.error\<close> calls of the health check pass a keyword argument, which makes the logger
  format the message and can raise: they are calls of a collaborator too.
\<close>

text \<open>JSON-like values held by the \<^verbatim>\<open>Dict[str, Any]\<close> results of the collaborators.\<close>

datatype pyval =
    PyNone
  | PyBool bool
  | PyInt int
  | PyStr string
  | PyList "pyval list"
  | PyDict "(string \<times> pyval) list"

type_synonym pydict = "(string \<times> pyval) list"

text \<open>
  The exceptions that can reach an \<^verbatim>\<open>except\<close> clause of the endpoints or escape from
  them. \<open>HTTPException\<close> carries \<^verbatim>\<open>status_code\<close> and \<^verbatim>\<open>detail\<close>; \<open>KeyError\<close> carries the
  missing key; the others carry the text of \<^verbatim>\<open>str(e)\<close>. FastAPI's \<^verbatim>\<open>HTTPException\<close>
  derives from \<^verbatim>\<open>Exception\<close> and not from \<^verbatim>\<open>ValueError\<close>; \<^verbatim>\<open>KeyError\<close> and \<^verbatim>\<open>IndexError\<close>
  derive from \<^verbatim>\<open>LookupError\<close>. \<open>UnroutableIntent\<close> is the dispatcher's error for an unknown
  intent (see \<open>dispatch_intent\<close> below). \<open>JSONDecodeError\<close> is \<^verbatim>\<open>json.JSONDecodeError\<close>,
  raised when a reply of a backend does not parse; the standard library derives it from
  \<^verbatim>\<open>ValueError\<close>. \<open>OtherException\<close> stands for every exception class that is neither of
  these nor a subclass of \<^verbatim>\<open>ValueError\<close>.
\<close>

datatype exn =
    HTTPException nat string
  | ValueError string
  | UnroutableIntent string
  | JSONDecodeError string
  | KeyError string
  | IndexError string
  | OtherException string

text \<open>\<^verbatim>\<open>isinstance(e, ValueError)\<close>: what the clause \<^verbatim>\<open>except ValueError as e\<close> catches.\<close>

fun is_ValueError :: "exn \<Rightarrow> bool" where
  "is_ValueError (ValueError _) = True"
| "is_ValueError (UnroutableIntent _) = True"
| "is_ValueError (JSONDecodeError _) = True"
| "is_ValueError _ = False"

text \<open>\<^verbatim>\<open>str(e)\<close>; the endpoints take it of the exceptions that are \<^verbatim>\<open>ValueError\<close>s.\<close>

fun str_exn :: "exn \<Rightarrow> string" where
  "str_exn (HTTPException code detail) = detail"
| "str_exn (ValueError s) = s"
| "str_exn (UnroutableIntent s) = s"
| "str_exn (JSONDecodeError s) = s"
| "str_exn (KeyError s) = s"
| "str_exn (IndexError s) = s"
| "str_exn (OtherException s) = s"

definition HTTP_400_BAD_REQUEST :: nat where
  "HTTP_400_BAD_REQUEST = 400"

definition HTTP_403_FORBIDDEN :: nat where
  "HTTP_403_FORBIDDEN = 403"

definition HTTP_500_INTERNAL_SERVER_ERROR :: nat where
  "HTTP_500_INTERNAL_SERVER_ERROR = 500"

definition HTTP_503_SERVICE_UNAVAILABLE :: nat where
  "HTTP_503_SERVICE_UNAVAILABLE = 503"

text \<open>
  The status code and the detail of a raised \<^verbatim>\<open>HTTPException\<close>; \<open>None\<close> for a returned
  response and for any other exception.
\<close>

fun status_code :: "exn + 'a \<Rightarrow> nat option" where
  "status_code (Inl (HTTPException code detail)) = Some code"
| "status_code _ = None"

fun detail :: "exn + 'a \<Rightarrow> string option" where
  "detail (Inl (HTTPException code d)) = Some d"
| "detail _ = None"


section \<open>Message model\<close>

text \<open>
  The classes of \<^verbatim>\<open>app.models.semantic\<close> are imported by the endpoints; the records
  below have the fields the endpoints read and write. The optional fields are
  \<^verbatim>\<open>Optional[...]\<close> in Python: \<open>None\<close> is Python's \<^verbatim>\<open>None\<close>. The timestamp is a string,
  as the value the endpoint stores in it is (\<^verbatim>\<open>isoformat()\<close>). The type \<open>'f\<close> is the
  type of \<^verbatim>\<open>temperature\<close>, which is only passed through.
\<close>

record user =
  id_user :: string

record message =
  type_message :: string
  role :: string
  content :: string

record metadata =
  session_id :: string
  user_id :: string
  mode :: string
  timestamp :: "string option"

record 'f request_payload =
  messages :: "message list option"
  input :: "string option"
  metadata :: metadata
  model :: "string option"
  temperature :: "'f option"
  max_tokens :: "int option"

record response_payload =
  messages_rp :: "message list"
  metadata_rp :: metadata
  usage_rp :: "pydict option"

text \<open>
  The dictionary returned by \<^verbatim>\<open>llm_client.process_request\<close>: the endpoint reads
  \<^verbatim>\<open>response["messages"]\<close>, which raises \<^verbatim>\<open>KeyError\<close> when the key is missing (\<open>None\<close>
  here), and \<^verbatim>\<open>response.get("usage")\<close>, which is \<^verbatim>\<open>None\<close> when the key is missing.
\<close>

record llm_response =
  response_messages :: "message list option"
  response_usage :: "pydict option"

text \<open>The result of \<^verbatim>\<open>llm_client.get_intent_and_entities\<close>.\<close>

record intent_resolution =
  intent :: string
  entities :: pydict

text \<open>
  \<^verbatim>\<open>BaseLLMClient\<close>: the two capabilities of the LLM resolver, each returning its result
  or raising.
\<close>

record 'f llm_client =
  llm_process_request ::
    "message list \<Rightarrow> string \<Rightarrow> string option \<Rightarrow> 'f option \<Rightarrow> int option \<Rightarrow> exn + llm_response"
  get_intent_and_entities :: "string \<Rightarrow> string \<Rightarrow> exn + intent_resolution"

text \<open>
  The calls to collaborators, in the order the endpoint makes them: the two calls of
  the LLM client with their arguments, the reading of the clock
  (\<^verbatim>\<open>datetime.now(timezone.utc)\<close>), and the execution of an intent handler by the
  dispatcher (intent, entities, user id).
\<close>

datatype 'f event =
    LLM_process_request "message list" string "string option" "'f option" "int option"
  | LLM_get_intent_and_entities string string
  | Clock_now
  | Handler_executed string pydict string

text \<open>The single quote, for the string literals that contain one.\<close>

definition sq :: string where
  "sq = [CHR 0x27]"

text \<open>Python truthiness of an optional list and of an optional string.\<close>

fun truthy_list :: "'a list option \<Rightarrow> bool" where
  "truthy_list None = False"
| "truthy_list (Some []) = False"
| "truthy_list (Some (x # xs)) = True"

definition truthy_str :: "string option \<Rightarrow> bool" where
  "truthy_str s = truthy_list s"


section \<open>The modern flow: \<^verbatim>\<open>process_request\<close>\<close>

text \<open>
  Lines 63 to 81: the effective message sequence. \<^verbatim>\<open>if payload.messages\<close> and
  \<^verbatim>\<open>elif payload.input\<close> test truthiness: \<^verbatim>\<open>None\<close>, the empty list and the empty string
  are false. The last branch raises the 400 \<^verbatim>\<open>HTTPException\<close> inside the \<^verbatim>\<open>try\<close> block.
\<close>

definition resolve_messages :: "'f request_payload \<Rightarrow> exn + message list" where
  "resolve_messages payload =
     (case messages payload of
        Some (m # ms) \<Rightarrow> Inr (m # ms)
      | _ \<Rightarrow>
          (case input payload of
             Some (c # cs) \<Rightarrow> Inr [\<lparr>type_message = ''text'', role = ''user'', content = c # cs\<rparr>]
           | _ \<Rightarrow>
               Inl (HTTPException HTTP_400_BAD_REQUEST
                     (''Request must contain either '' @ sq @ ''input'' @ sq @ '' or '' @ sq
                      @ ''messages'' @ sq))))"

text \<open>
  Lines 62 to 104: the body of the \<^verbatim>\<open>try\<close> block. After the LLM call has returned,
  \<^verbatim>\<open>if not payload.metadata.timestamp\<close> (lines 93 and 94) reads the clock and stores its
  ISO text, \<open>now\<close>, in the metadata of the payload; the response is built from that
  metadata (lines 97 to 101).
\<close>

definition process_request_try ::
  "'f request_payload \<Rightarrow> 'f llm_client \<Rightarrow> string \<Rightarrow> 'f event list \<times> (exn + response_payload)" where
  "process_request_try payload client now =
     (case resolve_messages payload of
        Inl e \<Rightarrow> ([], Inl e)
      | Inr msgs \<Rightarrow>
          (let call = LLM_process_request msgs (mode (metadata payload)) (model payload)
                        (temperature payload) (max_tokens payload)
           in case llm_process_request client msgs (mode (metadata payload)) (model payload)
                     (temperature payload) (max_tokens payload) of
                Inl e \<Rightarrow> ([call], Inl e)
              | Inr response \<Rightarrow>
                  (case (if \<not> truthy_str (timestamp (metadata payload))
                         then ([Clock_now], (metadata payload)\<lparr>timestamp := Some now\<rparr>)
                         else ([], metadata payload)) of
                     (evs, md) \<Rightarrow>
                       (case response_messages response of
                          None \<Rightarrow> (call # evs, Inl (KeyError ''messages''))
                        | Some ms \<Rightarrow>
                            (call # evs,
                             Inr \<lparr>messages_rp = ms, metadata_rp = md,
                                  usage_rp = response_usage response\<rparr>)))))"

text \<open>
  Lines 106 to 117: the two \<^verbatim>\<open>except\<close> clauses, in their order. The second one catches
  every \<^verbatim>\<open>Exception\<close> that is not a \<^verbatim>\<open>ValueError\<close>.
\<close>

definition process_request_except :: "exn \<Rightarrow> exn" where
  "process_request_except e =
     (if is_ValueError e then HTTPException HTTP_400_BAD_REQUEST (str_exn e)
      else HTTPException HTTP_500_INTERNAL_SERVER_ERROR
             ''An error occurred while processing the request'')"

text \<open>
  Lines 45 to 117. The user-id check stands before the \<^verbatim>\<open>try\<close> block, so its 403
  reaches the caller as raised.
\<close>

definition process_request ::
  "'f request_payload \<Rightarrow> user \<Rightarrow> 'f llm_client \<Rightarrow> string \<Rightarrow> 'f event list \<times> (exn + response_payload)" where
  "process_request payload current_user client now =
     (if user_id (metadata payload) \<noteq> id_user current_user then
        ([], Inl (HTTPException HTTP_403_FORBIDDEN
                   ''User ID in payload does not match authenticated user''))
      else
        (case process_request_try payload client now of
           (evs, Inl e) \<Rightarrow> (evs, Inl (process_request_except e))
         | (evs, Inr result) \<Rightarrow> (evs, Inr result)))"



section \<open>The legacy flow: \<^verbatim>\<open>legacy_process_request\<close>\<close>

record process_request_input =
  text_pri :: string
  session_id_pri :: string
  user_id_pri :: string

text \<open>
  \<^verbatim>\<open>ProcessRequestOutput\<close>. The status and the message are whatever the dispatcher's
  dictionary holds under these keys, so they are \<open>pyval\<close>s.
\<close>

record process_request_output =
  status_pro :: pyval
  message_pro :: pyval
  intent_pro :: string
  data_pro :: pydict
  request_id_pro :: string

text \<open>
  \<^verbatim>\<open>d.get(key, default)\<close> on a dictionary held as an association list (the keys of a
  Python dictionary are unique, so the first binding is the binding).
\<close>

definition dict_get :: "('k \<times> 'v) list \<Rightarrow> 'k \<Rightarrow> 'v \<Rightarrow> 'v" where
  "dict_get d k dflt = (case map_of d k of None \<Rightarrow> dflt | Some v \<Rightarrow> v)"

text \<open>
  The intent dispatcher as the endpoint sees it: called with the intent, the entities
  and the user id, it returns the handlers it executed and its result or its exception.
\<close>

type_synonym 'f dispatcher =
  "string \<Rightarrow> pydict \<Rightarrow> string \<Rightarrow> 'f event list \<times> (exn + pydict)"

text \<open>Lines 167 to 195: the body of the \<^verbatim>\<open>try\<close> block; \<open>request_id\<close> is \<^verbatim>\<open>str(uuid.uuid4())\<close>.\<close>

definition legacy_process_request_try ::
  "process_request_input \<Rightarrow> user \<Rightarrow> 'f llm_client \<Rightarrow> 'f dispatcher \<Rightarrow> string
     \<Rightarrow> 'f event list \<times> (exn + process_request_output)" where
  "legacy_process_request_try request_data current_user client dispatch request_id =
     (let call = LLM_get_intent_and_entities (text_pri request_data) (session_id_pri request_data)
      in case get_intent_and_entities client (text_pri request_data) (session_id_pri request_data) of
           Inl e \<Rightarrow> ([call], Inl e)
         | Inr llm_response \<Rightarrow>
             (case dispatch (intent llm_response) (entities llm_response) (id_user current_user) of
                (evs, Inl e) \<Rightarrow> (call # evs, Inl e)
              | (evs, Inr dispatcher_result) \<Rightarrow>
                  (call # evs,
                   Inr \<lparr>status_pro = dict_get dispatcher_result ''status'' (PyStr ''success''),
                        message_pro = dict_get dispatcher_result ''message''
                          (PyStr (''Action for intent '' @ sq @ intent llm_response @ sq
                                  @ '' completed.'')),
                        intent_pro = intent llm_response,
                        data_pro = dispatcher_result,
                        request_id_pro = request_id\<rparr>)))"

text \<open>Lines 197 to 208: the two \<^verbatim>\<open>except\<close> clauses of the legacy endpoint.\<close>

definition legacy_process_request_except :: "exn \<Rightarrow> exn" where
  "legacy_process_request_except e =
     (if is_ValueError e then HTTPException HTTP_400_BAD_REQUEST (str_exn e)
      else HTTPException HTTP_500_INTERNAL_SERVER_ERROR ''Internal server error'')"

text \<open>Lines 147 to 208.\<close>

definition legacy_process_request ::
  "process_request_input \<Rightarrow> user \<Rightarrow> 'f llm_client \<Rightarrow> 'f dispatcher \<Rightarrow> string
     \<Rightarrow> 'f event list \<times> (exn + process_request_output)" where
  "legacy_process_request request_data current_user client dispatch request_id =
     (if user_id_pri request_data \<noteq> id_user current_user then
        ([], Inl (HTTPException HTTP_403_FORBIDDEN
                   ''User ID in payload does not match authenticated user''))
      else
        (case legacy_process_request_try request_data current_user client dispatch request_id of
           (evs, Inl e) \<Rightarrow> (evs, Inl (legacy_process_request_except e))
         | (evs, Inr result) \<Rightarrow> (evs, Inr result)))"

text \<open>
  Modelled from the spec: \<^verbatim>\<open>dispatch_intent\<close> of \<^verbatim>\<open>app.services.dispatcher\<close>, which the
  endpoint imports and which is not among the sources. The spec (4.3, 6) gives it a
  registry from intent names to handlers, a handler being a function of the entities
  and the user id that returns a result dictionary or fails. A registered intent has
  its handler executed; an unknown intent raises the distinct unroutable-intent error
  and executes nothing. The spec has the orchestrator answer that error with a client
  error, and the only exceptions the endpoint answers so are \<^verbatim>\<open>ValueError\<close>s, so
  \<open>UnroutableIntent\<close> is a subclass of \<^verbatim>\<open>ValueError\<close> (see \<open>is_ValueError\<close>). The spec
  does not give the error's text; it is the intent name here.
\<close>

type_synonym handler = "pydict \<Rightarrow> string \<Rightarrow> exn + pydict"

definition dispatch_intent :: "(string \<times> handler) list \<Rightarrow> 'f dispatcher" where
  "dispatch_intent registry intent_name ents uid =
     (case map_of registry intent_name of
        None \<Rightarrow> ([], Inl (UnroutableIntent intent_name))
      | Some h \<Rightarrow> ([Handler_executed intent_name ents uid], h ents uid))"

text \<open>The handlers a trace executed.\<close>

fun is_Handler_executed :: "'f event \<Rightarrow> bool" where
  "is_Handler_executed (Handler_executed i e u) = True"
| "is_Handler_executed _ = False"

fun is_LLM_call :: "'f event \<Rightarrow> bool" where
  "is_LLM_call (LLM_process_request ms md mo t mt) = True"
| "is_LLM_call (LLM_get_intent_and_entities t s) = True"
| "is_LLM_call _ = False"


section \<open>The health check: \<^verbatim>\<open>get_application_status\<close>\<close>

text \<open>
  \<^verbatim>\<open>component_statuses\<close> is a dictionary from component names to strings, in insertion
  order; \<^verbatim>\<open>d[k] = v\<close> replaces the value of a key that is there and appends a new key.
\<close>

fun dict_set :: "'k \<Rightarrow> 'v \<Rightarrow> ('k \<times> 'v) list \<Rightarrow> ('k \<times> 'v) list" where
  "dict_set k v [] = [(k, v)]"
| "dict_set k v ((k', v') # d) =
     (if k = k' then (k, v) # d else (k', v') # dict_set k v d)"

record health =
  component_statuses :: "(string \<times> string) list"
  overall_ok :: bool

text \<open>Lines 37 and 38.\<close>

definition health_init :: health where
  "health_init = \<lparr>component_statuses = [], overall_ok = True\<rparr>"

text \<open>
  The outcome of awaiting a probe (\<^verbatim>\<open>db.command('ping')\<close>, \<^verbatim>\<open>redis.ping()\<close>): it returns,
  or it raises an \<^verbatim>\<open>Exception\<close> \<^verbatim>\<open>e\<close>, of which the handler reads the text \<^verbatim>\<open>str(e)\<close> only.
\<close>

datatype probe = Probe_ok | Probe_raises string

text \<open>
  \<^verbatim>\<open>log.error(message, exc_info=False)\<close> as the health check calls it at lines 46 and 56,
  with the message already interpolated by the f-string. It returns (\<open>None\<close>) or raises.
\<close>

type_synonym logger = "string \<Rightarrow> exn option"

text \<open>
  Lines 40 to 48. The log call of line 46 stands before line 47: when it raises, the
  exception leaves the \<^verbatim>\<open>except\<close> block and the function, and nothing is recorded.
\<close>

definition check_mongodb :: "logger \<Rightarrow> probe \<Rightarrow> health \<Rightarrow> exn + health" where
  "check_mongodb log_error ping h =
     (case ping of
        Probe_ok \<Rightarrow>
          Inr (h\<lparr>component_statuses := dict_set ''database_mongodb'' ''ok'' (component_statuses h)\<rparr>)
      | Probe_raises e \<Rightarrow>
          (case log_error (''MongoDB connection check failed: '' @ e) of
             Some x \<Rightarrow> Inl x
           | None \<Rightarrow>
               Inr (h\<lparr>component_statuses :=
                         dict_set ''database_mongodb'' ''error'' (component_statuses h),
                       overall_ok := False\<rparr>)))"

text \<open>Lines 50 to 58, with the log call of line 56 before line 57.\<close>

definition check_redis :: "logger \<Rightarrow> probe \<Rightarrow> health \<Rightarrow> exn + health" where
  "check_redis log_error ping h =
     (case ping of
        Probe_ok \<Rightarrow>
          Inr (h\<lparr>component_statuses := dict_set ''cache_broker_redis'' ''ok'' (component_statuses h)\<rparr>)
      | Probe_raises e \<Rightarrow>
          (case log_error (''Redis connection check failed: '' @ e) of
             Some x \<Rightarrow> Inl x
           | None \<Rightarrow>
               Inr (h\<lparr>component_statuses :=
                         dict_set ''cache_broker_redis'' ''error'' (component_statuses h),
                       overall_ok := False\<rparr>)))"

text \<open>Lines 60 to 76: the worker probe is commented out; only line 76 runs.\<close>

definition check_celery :: "health \<Rightarrow> health" where
  "check_celery h =
     h\<lparr>component_statuses :=
         dict_set ''celery_workers'' ''check_not_implemented'' (component_statuses h)\<rparr>"

text \<open>
  Lines 37 to 76: the three checks in their order. An exception of a log call ends
  the run where it is raised.
\<close>

definition run_checks :: "logger \<Rightarrow> probe \<Rightarrow> probe \<Rightarrow> exn + health" where
  "run_checks log_error db redis =
     (case check_mongodb log_error db health_init of
        Inl x \<Rightarrow> Inl x
      | Inr h \<Rightarrow>
          (case check_redis log_error redis h of
             Inl x \<Rightarrow> Inl x
           | Inr h' \<Rightarrow> Inr (check_celery h')))"

text \<open>Line 79.\<close>

definition final_status :: "health \<Rightarrow> string" where
  "final_status h = (if overall_ok h then ''ok'' else ''error'')"

text \<open>\<^verbatim>\<open>str.upper\<close> on ASCII text.\<close>

definition upper_char :: "char \<Rightarrow> char" where
  "upper_char c =
     (if 97 \<le> (of_char c :: nat) \<and> (of_char c :: nat) \<le> 122 then char_of (of_char c - 32 :: nat)
      else c)"

definition upper :: "string \<Rightarrow> string" where
  "upper s = map upper_char s"

text \<open>
  \<^verbatim>\<open>str(d)\<close> of a dictionary of strings. \<^verbatim>\<open>repr\<close> of a string puts it between single
  quotes when it holds no quote, no backslash and no control character, which is the
  case of every key and value the health check stores.
\<close>

definition repr_str :: "string \<Rightarrow> string" where
  "repr_str s = sq @ s @ sq"

fun join :: "string \<Rightarrow> string list \<Rightarrow> string" where
  "join sep [] = []"
| "join sep [x] = x"
| "join sep (x # y # ys) = x @ sep @ join sep (y # ys)"

definition repr_dict :: "(string \<times> string) list \<Rightarrow> string" where
  "repr_dict d = ''{'' @ join '', '' (map (\<lambda>(k, v). repr_str k @ '': '' @ repr_str v) d) @ ''}''"

text \<open>Line 80.\<close>

definition status_message :: "health \<Rightarrow> string" where
  "status_message h =
     ''Overall: '' @ upper (final_status h) @ '' | Components: '' @ repr_dict (component_statuses h)"

record status_response =
  status_sr :: string
  message_sr :: string

text \<open>
  Lines 37 to 89. A returned \<^verbatim>\<open>StatusResponse\<close> is sent with the route's default code
  200; the raised \<^verbatim>\<open>HTTPException\<close> is sent with its own code and the status message as
  its detail. An exception of a log call is none of these: it leaves the endpoint as
  it is.
\<close>

definition get_application_status :: "logger \<Rightarrow> probe \<Rightarrow> probe \<Rightarrow> exn + status_response" where
  "get_application_status log_error db redis =
     (case run_checks log_error db redis of
        Inl x \<Rightarrow> Inl x
      | Inr h \<Rightarrow>
          if \<not> overall_ok h then
            Inl (HTTPException HTTP_503_SERVICE_UNAVAILABLE (status_message h))
          else Inr \<lparr>status_sr = final_status h,
                    message_sr = ''All critical components operational.''\<rparr>)"


section \<open>The logger's formatting of a message\<close>

text \<open>
  loguru formats the message of a log call that has positional or keyword arguments,
  when one of its handlers admits the level: \<^verbatim>\<open>message.format(*args, **kwargs)\<close>. For
  the calls of lines 46 and 56 that is \<^verbatim>\<open>message.format(exc_info=False)\<close>. What follows
  is \<^verbatim>\<open>str.format\<close> of CPython 3.11 on a 64-bit build, as far as it decides whether the
  call raises, with no positional argument and the one keyword \<^verbatim>\<open>exc_info\<close>. The text
  is read from left to right; the first error is the one raised.

  A replacement field whose name starts with \<^verbatim>\<open>exc_info\<close> is handed to the parameter
  \<open>render\<close> with its name, its conversion and its format specification: what Python
  does with it (attribute lookup on \<^verbatim>\<open>False\<close>, conversion, number formatting) is not
  followed here.
\<close>

type_synonym render = "string \<Rightarrow> char option \<Rightarrow> string \<Rightarrow> exn option"

text \<open>
  Where the scan stands: in literal text; after a brace in literal text; in the name
  of a field (the flag says: inside square brackets); after the \<^verbatim>\<open>!\<close> of a conversion;
  after the conversion character; in the format specification, with the depth of
  its braces.
\<close>

datatype fmt_state =
    Literal
  | Open_brace
  | Close_brace
  | Field_name bool string
  | Conversion string
  | After_conversion string char
  | Format_spec string "char option" nat string

definition is_digit :: "char \<Rightarrow> bool" where
  "is_digit c = (48 \<le> (of_char c :: nat) \<and> (of_char c :: nat) \<le> 57)"

definition decimal :: "string \<Rightarrow> nat" where
  "decimal ds = foldl (\<lambda>a c. 10 * a + (of_char c - 48)) 0 ds"

definition PY_SSIZE_T_MAX :: nat where
  "PY_SSIZE_T_MAX = 2 ^ 63 - 1"

definition replacement_index :: "string \<Rightarrow> string" where
  "replacement_index ds =
     ''Replacement index ''
     @ (case dropWhile (\<lambda>c. c = CHR ''0'') ds of [] \<Rightarrow> ''0'' | d # ds' \<Rightarrow> d # ds')
     @ '' out of range for positional args tuple''"

text \<open>
  The object a field names: the name up to the first \<^verbatim>\<open>.\<close> or \<^verbatim>\<open>[\<close> is empty (automatic
  numbering, index 0) or a number, and there is no positional argument; or it is a
  keyword, and the only keyword is \<^verbatim>\<open>exc_info\<close>.
\<close>

definition get_field :: "render \<Rightarrow> string \<Rightarrow> char option \<Rightarrow> string \<Rightarrow> exn option" where
  "get_field render name conv spec =
     (let first = takeWhile (\<lambda>c. c \<noteq> CHR ''.'' \<and> c \<noteq> CHR ''['') name in
      if first = [] then Some (IndexError (replacement_index ''0''))
      else if list_all is_digit first then
        (if decimal first > PY_SSIZE_T_MAX then
           Some (ValueError ''Too many decimal digits in format string'')
         else Some (IndexError (replacement_index first)))
      else if first = ''exc_info'' then render name conv spec
      else Some (KeyError first))"

definition end_of_field :: "render \<Rightarrow> string \<Rightarrow> char option \<Rightarrow> string \<Rightarrow> exn + fmt_state" where
  "end_of_field render name conv spec =
     (case get_field render name conv spec of Some x \<Rightarrow> Inl x | None \<Rightarrow> Inr Literal)"

text \<open>One character of a field name.\<close>

definition field_name_char :: "render \<Rightarrow> bool \<Rightarrow> string \<Rightarrow> char \<Rightarrow> exn + fmt_state" where
  "field_name_char render in_brackets name c =
     (if in_brackets then Inr (Field_name (c \<noteq> CHR '']'') (name @ [c]))
      else if c = CHR ''{'' then
        Inl (ValueError (''unexpected '' @ sq @ ''{'' @ sq @ '' in field name''))
      else if c = CHR ''['' then Inr (Field_name True (name @ [c]))
      else if c = CHR ''}'' then end_of_field render name None []
      else if c = CHR '':'' then Inr (Format_spec name None 1 [])
      else if c = CHR ''!'' then Inr (Conversion name)
      else Inr (Field_name False (name @ [c])))"

text \<open>One character of the message.\<close>

fun format_step :: "render \<Rightarrow> fmt_state \<Rightarrow> char \<Rightarrow> exn + fmt_state" where
  "format_step render Literal c =
     (if c = CHR ''{'' then Inr Open_brace
      else if c = CHR ''}'' then Inr Close_brace
      else Inr Literal)"
| "format_step render Open_brace c =
     (if c = CHR ''{'' then Inr Literal else field_name_char render False [] c)"
| "format_step render Close_brace c =
     (if c = CHR ''}'' then Inr Literal
      else Inl (ValueError (''Single '' @ sq @ ''}'' @ sq @ '' encountered in format string'')))"
| "format_step render (Field_name in_brackets name) c = field_name_char render in_brackets name c"
| "format_step render (Conversion name) c = Inr (After_conversion name c)"
| "format_step render (After_conversion name conv) c =
     (if c = CHR ''}'' then end_of_field render name (Some conv) []
      else if c = CHR '':'' then Inr (Format_spec name (Some conv) 1 [])
      else Inl (ValueError (''expected '' @ sq @ '':'' @ sq @ '' after conversion specifier'')))"
| "format_step render (Format_spec name conv depth spec) c =
     (if c = CHR ''{'' then Inr (Format_spec name conv (Suc depth) (spec @ [c]))
      else if c = CHR ''}'' then
        (if depth = 1 then end_of_field render name conv spec
         else Inr (Format_spec name conv (depth - 1) (spec @ [c])))
      else Inr (Format_spec name conv depth (spec @ [c])))"

text \<open>The end of the message.\<close>

fun format_end :: "fmt_state \<Rightarrow> exn option" where
  "format_end Literal = None"
| "format_end Open_brace =
     Some (ValueError (''Single '' @ sq @ ''{'' @ sq @ '' encountered in format string''))"
| "format_end Close_brace =
     Some (ValueError (''Single '' @ sq @ ''}'' @ sq @ '' encountered in format string''))"
| "format_end (Field_name in_brackets name) =
     Some (ValueError (''expected '' @ sq @ ''}'' @ sq @ '' before end of string''))"
| "format_end (Conversion name) =
     Some (ValueError ''end of string while looking for conversion specifier'')"
| "format_end (After_conversion name conv) =
     Some (ValueError (''unmatched '' @ sq @ ''{'' @ sq @ '' in format spec''))"
| "format_end (Format_spec name conv depth spec) =
     Some (ValueError (''unmatched '' @ sq @ ''{'' @ sq @ '' in format spec''))"

fun format_run :: "render \<Rightarrow> fmt_state \<Rightarrow> string \<Rightarrow> exn option" where
  "format_run render st [] = format_end st"
| "format_run render st (c # cs) =
     (case format_step render st c of
        Inl x \<Rightarrow> Some x
      | Inr st' \<Rightarrow> format_run render st' cs)"

text \<open>\<^verbatim>\<open>log.error(message, exc_info=False)\<close> of a logger that formats.\<close>

definition loguru_error :: "render \<Rightarrow> logger" where
  "loguru_error render message = format_run render Literal message"


section \<open>Test doubles\<close>

text \<open>
  Deterministic collaborators and inputs, on which the theorems below are instantiated.
  \<open>canned_client\<close> answers every completion with one assistant message and every
  extraction with the intent \<^verbatim>\<open>create_order\<close>; \<open>failing_client e\<close> raises \<open>e\<close> from both
  capabilities; \<open>bare_handler\<close> returns a dictionary with neither \<^verbatim>\<open>status\<close> nor
  \<^verbatim>\<open>message\<close>; \<open>failing_handler e\<close> raises \<open>e\<close>.
\<close>

definition alice :: user where
  "alice = \<lparr>id_user = ''alice''\<rparr>"

definition reply :: message where
  "reply = \<lparr>type_message = ''text'', role = ''assistant'', content = ''hi''\<rparr>"

definition canned_client :: "nat llm_client" where
  "canned_client =
     \<lparr>llm_process_request =
        (\<lambda>msgs md mo t mt. Inr \<lparr>response_messages = Some [reply], response_usage = None\<rparr>),
      get_intent_and_entities =
        (\<lambda>txt sid. Inr \<lparr>intent = ''create_order'', entities = [(''quantity'', PyInt 2)]\<rparr>)\<rparr>"


definition payload_of ::
  "message list option \<Rightarrow> string option \<Rightarrow> string \<Rightarrow> string option \<Rightarrow> nat request_payload" where
  "payload_of ms inp uid ts =
     \<lparr>messages = ms, input = inp,
      metadata = \<lparr>session_id = ''s1'', user_id = uid, mode = ''chat'', timestamp = ts\<rparr>,
      model = None, temperature = None, max_tokens = None\<rparr>"

definition legacy_input :: process_request_input where
  "legacy_input = \<lparr>text_pri = ''two pizzas'', session_id_pri = ''s1'', user_id_pri = ''alice''\<rparr>"

definition bare_handler :: handler where
  "bare_handler ents uid = Inr [(''order_id'', PyInt 7)]"


text \<open>
  \<open>silent_logger\<close> is a logger none of whose handlers admits the level: it returns
  before it formats. \<open>plain_render\<close> formats every field that names \<^verbatim>\<open>exc_info\<close>.
\<close>

definition silent_logger :: logger where
  "silent_logger message = None"

definition plain_render :: render where
  "plain_render name conv spec = None"


section \<open>Shared facts\<close>

lemmas http_codes =
  HTTP_400_BAD_REQUEST_def HTTP_403_FORBIDDEN_def HTTP_500_INTERNAL_SERVER_ERROR_def
  HTTP_503_SERVICE_UNAVAILABLE_def

subsection \<open>The effective message sequence\<close>

lemma resolve_messages_nonempty:
  "messages payload = Some (m # ms) \<Longrightarrow> resolve_messages payload = Inr (m # ms)"
  by (simp add: resolve_messages_def)

lemma resolve_messages_input:
  assumes "messages payload = None \<or> messages payload = Some []"
    and "input payload = Some (c # cs)"
  shows "resolve_messages payload =
           Inr [\<lparr>type_message = ''text'', role = ''user'', content = c # cs\<rparr>]"
  using assms by (auto simp: resolve_messages_def)

lemma resolve_messages_missing:
  assumes "messages payload = None \<or> messages payload = Some []"
    and "input payload = None \<or> input payload = Some []"
  shows "resolve_messages payload =
           Inl (HTTPException 400
                 (''Request must contain either '' @ sq @ ''input'' @ sq @ '' or '' @ sq
                  @ ''messages'' @ sq))"
  using assms by (auto simp: resolve_messages_def http_codes)

lemma truthy_str_iff:
  "truthy_str s = (s \<noteq> None \<and> s \<noteq> Some [])"
  by (cases s rule: truthy_list.cases) (simp_all add: truthy_str_def)

subsection \<open>The \<^verbatim>\<open>try\<close> blocks and their \<^verbatim>\<open>except\<close> clauses\<close>

lemma process_request_authorized:
  assumes "user_id (metadata payload) = id_user current_user"
  shows "process_request payload current_user client now =
           (case process_request_try payload client now of
              (evs, Inl e) \<Rightarrow> (evs, Inl (process_request_except e))
            | (evs, Inr result) \<Rightarrow> (evs, Inr result))"
  using assms by (simp add: process_request_def)

lemma legacy_process_request_authorized:
  assumes "user_id_pri request_data = id_user current_user"
  shows "legacy_process_request request_data current_user client dispatch request_id =
           (case legacy_process_request_try request_data current_user client dispatch request_id of
              (evs, Inl e) \<Rightarrow> (evs, Inl (legacy_process_request_except e))
            | (evs, Inr result) \<Rightarrow> (evs, Inr result))"
  using assms by (simp add: legacy_process_request_def)



lemma process_request_try_unresolved:
  "resolve_messages payload = Inl e \<Longrightarrow> process_request_try payload client now = ([], Inl e)"
  by (simp add: process_request_try_def)

lemma process_request_try_calls_llm:
  assumes "resolve_messages payload = Inr msgs"
  shows "take 1 (fst (process_request_try payload client now)) =
           [LLM_process_request msgs (mode (metadata payload)) (model payload)
              (temperature payload) (max_tokens payload)]"
  using assms
  by (simp add: process_request_try_def Let_def split: sum.splits option.splits)

lemma process_request_calls_llm:
  assumes "user_id (metadata payload) = id_user current_user"
    and "resolve_messages payload = Inr msgs"
  shows "take 1 (fst (process_request payload current_user client now)) =
           [LLM_process_request msgs (mode (metadata payload)) (model payload)
              (temperature payload) (max_tokens payload)]"
  using process_request_try_calls_llm [OF assms(2), of client now] assms(1)
  by (cases "process_request_try payload client now")
    (auto simp: process_request_authorized split: sum.splits)

text \<open>
  A returned response comes from the end of the \<^verbatim>\<open>try\<close> block: the messages were
  resolved, the LLM call returned a dictionary with the key \<^verbatim>\<open>messages\<close>, and the clock
  was read after that call exactly when the timestamp of the payload was false.
\<close>

lemma process_request_returns:
  assumes "process_request payload current_user client now = (evs, Inr result)"
  shows "process_request_try payload client now = (evs, Inr result)"
  using assms
  by (cases "process_request_try payload client now")
    (auto simp: process_request_def split: if_splits sum.splits)

lemma process_request_try_returns:
  assumes "process_request_try payload client now = (evs, Inr result)"
  shows "\<exists>msgs response ms.
           resolve_messages payload = Inr msgs
           \<and> llm_process_request client msgs (mode (metadata payload)) (model payload)
                (temperature payload) (max_tokens payload) = Inr response
           \<and> response_messages response = Some ms
           \<and> evs = LLM_process_request msgs (mode (metadata payload)) (model payload)
                     (temperature payload) (max_tokens payload)
                   # (if truthy_str (timestamp (metadata payload)) then [] else [Clock_now])
           \<and> result = \<lparr>messages_rp = ms,
                        metadata_rp =
                          (if truthy_str (timestamp (metadata payload)) then metadata payload
                           else (metadata payload)\<lparr>timestamp := Some now\<rparr>),
                        usage_rp = response_usage response\<rparr>"
proof (cases "resolve_messages payload")
  case (Inl e)
  with assms show ?thesis by (simp add: process_request_try_def)
next
  case msgs: (Inr msgs)
  show ?thesis
  proof (cases "llm_process_request client msgs (mode (metadata payload)) (model payload)
                  (temperature payload) (max_tokens payload)")
    case (Inl e)
    with assms msgs show ?thesis by (simp add: process_request_try_def)
  next
    case response: (Inr response)
    show ?thesis
    proof (cases "response_messages response")
      case None
      with assms msgs response show ?thesis
        by (simp add: process_request_try_def split: if_splits)
    next
      case (Some ms)
      with assms msgs response show ?thesis
        by (simp add: process_request_try_def split: if_splits)
    qed
  qed
qed

lemma process_request_returns_metadata:
  assumes "process_request payload current_user client now = (evs, Inr result)"
  shows "metadata_rp result =
           (if truthy_str (timestamp (metadata payload)) then metadata payload
            else (metadata payload)\<lparr>timestamp := Some now\<rparr>)
         \<and> (\<exists>call. is_LLM_call call
                \<and> evs = call # (if truthy_str (timestamp (metadata payload)) then []
                                 else [Clock_now]))"
  using process_request_try_returns [OF process_request_returns [OF assms]] by auto

subsection \<open>The health checks\<close>

lemma format_run_no_brace:
  assumes "CHR ''{'' \<notin> set s" and "CHR ''}'' \<notin> set s"
  shows "format_run render Literal s = None"
  using assms by (induction s) auto

lemma loguru_error_no_brace:
  assumes "CHR ''{'' \<notin> set s" and "CHR ''}'' \<notin> set s"
  shows "loguru_error render s = None"
  using assms by (simp add: loguru_error_def format_run_no_brace)

text \<open>A run of the three checks that reaches its end has recorded all three components.\<close>

lemma run_checks_returns:
  assumes "run_checks log_error db redis = Inr h"
  shows "h = \<lparr>component_statuses =
                [(''database_mongodb'', if db = Probe_ok then ''ok'' else ''error''),
                 (''cache_broker_redis'', if redis = Probe_ok then ''ok'' else ''error''),
                 (''celery_workers'', ''check_not_implemented'')],
              overall_ok = (db = Probe_ok \<and> redis = Probe_ok)\<rparr>"
  using assms
  by (cases db; cases redis)
    (auto simp: run_checks_def check_mongodb_def check_redis_def check_celery_def health_init_def
      split: option.splits)

text \<open>The run reaches its end when no probe fails, and when the log call of each failure returns.\<close>

lemma run_checks_both_ok:
  "run_checks log_error Probe_ok Probe_ok =
     Inr \<lparr>component_statuses =
            [(''database_mongodb'', ''ok''), (''cache_broker_redis'', ''ok''),
             (''celery_workers'', ''check_not_implemented'')],
          overall_ok = True\<rparr>"
  by (simp add: run_checks_def check_mongodb_def check_redis_def check_celery_def health_init_def)

lemma run_checks_datastore_down:
  assumes "log_error (''MongoDB connection check failed: '' @ e) = None"
  shows "run_checks log_error (Probe_raises e) Probe_ok =
           Inr \<lparr>component_statuses =
                  [(''database_mongodb'', ''error''), (''cache_broker_redis'', ''ok''),
                   (''celery_workers'', ''check_not_implemented'')],
                overall_ok = False\<rparr>"
  using assms
  by (simp add: run_checks_def check_mongodb_def check_redis_def check_celery_def health_init_def)

lemma run_checks_datastore_log_raises:
  assumes "log_error (''MongoDB connection check failed: '' @ e) = Some x"
  shows "run_checks log_error (Probe_raises e) redis = Inl x"
  using assms by (simp add: run_checks_def check_mongodb_def)

lemma upper_error: "upper ''error'' = ''ERROR''"
  by code_simp


section \<open>Authorization\<close>

text \<open>
  C1. Whenever the user id of the payload's metadata differs from the id of the
  authenticated user, \<open>process_request\<close> rejects with the 403 authorization error, whose
  code is not the 400 of the validation errors, and its trace of collaborator calls is
  empty: the LLM resolver is not invoked.
\<close>

theorem process_request_user_mismatch:
  assumes "user_id (metadata payload) \<noteq> id_user current_user"
  shows "process_request payload current_user client now =
           ([], Inl (HTTPException 403 ''User ID in payload does not match authenticated user''))
         \<and> filter is_LLM_call (fst (process_request payload current_user client now)) = []
         \<and> HTTP_403_FORBIDDEN \<noteq> HTTP_400_BAD_REQUEST"
  using assms by (simp add: process_request_def http_codes)

theorem process_request_user_mismatch_witness:
  "process_request (payload_of None (Some ''hello'') ''mallory'' None) alice canned_client ''t'' =
     ([], Inl (HTTPException 403 ''User ID in payload does not match authenticated user''))"
proof -
  have h: "user_id (metadata (payload_of None (Some ''hello'') ''mallory'' None)) \<noteq> id_user alice"
    by (simp add: payload_of_def alice_def)
  show ?thesis
    using process_request_user_mismatch [OF h, of canned_client "''t''"] by simp
qed


section \<open>Malformed requests\<close>

text \<open>
  With a matching user id and neither \<^verbatim>\<open>messages\<close> nor \<^verbatim>\<open>input\<close> populated, the 400 of
  line 78 is raised inside the \<^verbatim>\<open>try\<close> block. It is not a \<^verbatim>\<open>ValueError\<close>, so the clause
  \<^verbatim>\<open>except Exception\<close> of line 112 catches it and the caller receives the 500 of line
  114. The LLM resolver is not called.
\<close>

lemma process_request_missing_both:
  assumes "user_id (metadata payload) = id_user current_user"
    and "messages payload = None \<or> messages payload = Some []"
    and "input payload = None \<or> input payload = Some []"
  shows "process_request payload current_user client now =
           ([], Inl (HTTPException 500 ''An error occurred while processing the request''))"
  using assms(1) resolve_messages_missing [OF assms(2,3)]
  by (simp add: process_request_def process_request_try_def process_request_except_def http_codes)

text \<open>
  C2. The claim asks for the malformed-request client error (400) when neither
  \<^verbatim>\<open>messages\<close> nor \<^verbatim>\<open>input\<close> is populated. On the payload with both fields \<^verbatim>\<open>None\<close>, and
  on the payload with an empty list and an empty string, \<open>process_request\<close> answers 500
  with the generic text. The trace is empty, so no LLM call was made.
\<close>

theorem process_request_missing_both_is_500:
  "process_request (payload_of None None ''alice'' None) alice canned_client ''t'' =
     ([], Inl (HTTPException 500 ''An error occurred while processing the request''))
   \<and> process_request (payload_of (Some []) (Some []) ''alice'' None) alice canned_client ''t'' =
     ([], Inl (HTTPException 500 ''An error occurred while processing the request''))"
  by (simp add: process_request_def process_request_try_def resolve_messages_def
      process_request_except_def payload_of_def alice_def http_codes)


section \<open>Health aggregation\<close>

text \<open>
  What the health check does when the log call of line 46 returns: with the datastore
  probe raising and the cache probe returning, the overall status is \<^verbatim>\<open>error\<close>, the
  entry of the cache/broker is \<^verbatim>\<open>ok\<close>, and the endpoint raises the 503 \<^verbatim>\<open>HTTPException\<close>,
  whose detail lists every component. A logger that formats does return on a message
  without braces.
\<close>

lemma health_datastore_down_cache_up:
  assumes "log_error (''MongoDB connection check failed: '' @ e) = None"
  shows "get_application_status log_error (Probe_raises e) Probe_ok =
           Inl (HTTPException 503
                 (''Overall: ERROR | Components: {''
                  @ sq @ ''database_mongodb'' @ sq @ '': '' @ sq @ ''error'' @ sq @ '', ''
                  @ sq @ ''cache_broker_redis'' @ sq @ '': '' @ sq @ ''ok'' @ sq @ '', ''
                  @ sq @ ''celery_workers'' @ sq @ '': '' @ sq @ ''check_not_implemented'' @ sq
                  @ ''}''))"
  by (simp add: get_application_status_def run_checks_datastore_down [where log_error = log_error and e = e, OF assms]
      final_status_def status_message_def upper_error repr_dict_def repr_str_def http_codes)

lemma health_datastore_down_cache_up_plain_text:
  assumes "CHR ''{'' \<notin> set e" and "CHR ''}'' \<notin> set e"
  shows "status_code (get_application_status (loguru_error render) (Probe_raises e) Probe_ok)
           = Some 503"
proof -
  have "loguru_error render (''MongoDB connection check failed: '' @ e) = None"
    using assms by (intro loguru_error_no_brace) auto
  from health_datastore_down_cache_up [where log_error = "loguru_error render" and e = e, OF this]
  show ?thesis by simp
qed

lemma get_application_status_log_raises:
  assumes "log_error (''MongoDB connection check failed: '' @ e) = Some x"
  shows "get_application_status log_error (Probe_raises e) redis = Inl x"
  by (simp add: get_application_status_def
      run_checks_datastore_log_raises [where log_error = log_error and e = e, OF assms])

lemma health_both_up:
  "get_application_status log_error Probe_ok Probe_ok =
     Inr \<lparr>status_sr = ''ok'', message_sr = ''All critical components operational.''\<rparr>"
  by (simp add: get_application_status_def run_checks_both_ok final_status_def)

text \<open>
  C3. The claim asks, whenever the datastore probe fails and the cache probe succeeds,
  for the overall status \<^verbatim>\<open>error\<close>, the cache/broker entry \<^verbatim>\<open>ok\<close> and the 503. With a
  logger that formats, a datastore failure whose text holds a brace makes the log call
  of line 46 raise: on the text \<^verbatim>\<open>bad reply {x}\<close> the endpoint ends with \<^verbatim>\<open>KeyError('x')\<close>,
  and on a text that quotes a reply document, as the driver's errors do, with the
  \<^verbatim>\<open>KeyError\<close> of the key \<^verbatim>\<open>'ok'\<close>. Nothing is recorded and no 503 is raised.
\<close>

theorem health_check_log_call_raises:
  "get_application_status (loguru_error render) (Probe_raises ''bad reply {x}'') Probe_ok
     = Inl (KeyError ''x'')
   \<and> get_application_status (loguru_error render)
        (Probe_raises (''not authorized, full error: {'' @ sq @ ''ok'' @ sq @ '': 0.0}''))
        Probe_ok
     = Inl (KeyError (sq @ ''ok'' @ sq))
   \<and> status_code (get_application_status (loguru_error render)
                     (Probe_raises ''bad reply {x}'') Probe_ok) \<noteq> Some 503"
proof -
  have 1: "loguru_error render (''MongoDB connection check failed: '' @ ''bad reply {x}'')
             = Some (KeyError ''x'')"
    by (simp add: loguru_error_def field_name_char_def end_of_field_def get_field_def
        is_digit_def)
  have 2: "loguru_error render
             (''MongoDB connection check failed: ''
              @ (''not authorized, full error: {'' @ sq @ ''ok'' @ sq @ '': 0.0}''))
             = Some (KeyError (sq @ ''ok'' @ sq))"
    by (simp add: loguru_error_def field_name_char_def end_of_field_def get_field_def
        is_digit_def sq_def)
  have a: "get_application_status (loguru_error render) (Probe_raises ''bad reply {x}'') Probe_ok
             = Inl (KeyError ''x'')"
    by (rule get_application_status_log_raises
          [where log_error = "loguru_error render" and e = "''bad reply {x}''", OF 1])
  have b: "get_application_status (loguru_error render)
             (Probe_raises (''not authorized, full error: {'' @ sq @ ''ok'' @ sq @ '': 0.0}''))
             Probe_ok
             = Inl (KeyError (sq @ ''ok'' @ sq))"
    by (rule get_application_status_log_raises
          [where log_error = "loguru_error render"
             and e = "''not authorized, full error: {'' @ sq @ ''ok'' @ sq @ '': 0.0}''", OF 2])
  have c: "status_code (get_application_status (loguru_error render)
                          (Probe_raises ''bad reply {x}'') Probe_ok) \<noteq> Some 503"
    unfolding a by simp
  from a b c show ?thesis by (intro conjI)
qed


section \<open>Opaque server errors\<close>





section \<open>The legacy response\<close>

text \<open>
  C5. When the extraction and the dispatch both return, \<open>legacy_process_request\<close>
  returns an output whose status is the value under \<^verbatim>\<open>status\<close> in the dispatcher's
  dictionary, or \<^verbatim>\<open>success\<close> when the key is absent; whose message is the value under
  \<^verbatim>\<open>message\<close>, or, when the key is absent, the text \<^verbatim>\<open>Action for intent '...' completed.\<close>,
  which contains the intent name; whose intent is the resolved intent; whose data is the
  whole dictionary; and whose request id is the correlation id of the request.
\<close>

theorem legacy_process_request_output:
  assumes "user_id_pri request_data = id_user current_user"
    and "get_intent_and_entities client (text_pri request_data) (session_id_pri request_data)
           = Inr llm_response"
    and "dispatch (intent llm_response) (entities llm_response) (id_user current_user)
           = (evs, Inr dispatcher_result)"
  shows "\<exists>out. snd (legacy_process_request request_data current_user client dispatch request_id)
                  = Inr out
           \<and> status_pro out =
               (case map_of dispatcher_result ''status'' of
                  Some v \<Rightarrow> v | None \<Rightarrow> PyStr ''success'')
           \<and> message_pro out =
               (case map_of dispatcher_result ''message'' of
                  Some v \<Rightarrow> v
                | None \<Rightarrow> PyStr (''Action for intent '' @ sq @ intent llm_response @ sq
                                 @ '' completed.''))
           \<and> (map_of dispatcher_result ''message'' = None \<longrightarrow>
                (\<exists>before after.
                   message_pro out = PyStr (before @ intent llm_response @ after)))
           \<and> intent_pro out = intent llm_response
           \<and> data_pro out = dispatcher_result
           \<and> request_id_pro out = request_id"
proof -
  let ?out = "\<lparr>status_pro = dict_get dispatcher_result ''status'' (PyStr ''success''),
               message_pro = dict_get dispatcher_result ''message''
                 (PyStr (''Action for intent '' @ sq @ intent llm_response @ sq
                         @ '' completed.'')),
               intent_pro = intent llm_response,
               data_pro = dispatcher_result,
               request_id_pro = request_id\<rparr>"
  have out: "snd (legacy_process_request request_data current_user client dispatch request_id)
               = Inr ?out"
    using assms
    by (simp add: legacy_process_request_authorized legacy_process_request_try_def)
  have contained: "\<exists>before after.
      ''Action for intent '' @ sq @ intent llm_response @ sq @ '' completed.''
        = before @ intent llm_response @ after"
    by (rule exI [of _ "''Action for intent '' @ sq"], rule exI [of _ "sq @ '' completed.''"])
      simp
  show ?thesis
    apply (rule exI [of _ ?out])
    using out contained by (simp add: dict_get_def split: option.splits)
qed

theorem legacy_process_request_output_witness:
  "snd (legacy_process_request legacy_input alice canned_client
          (dispatch_intent [(''create_order'', bare_handler)]) ''r1'') =
     Inr \<lparr>status_pro = PyStr ''success'',
          message_pro = PyStr (''Action for intent '' @ sq @ ''create_order'' @ sq @ '' completed.''),
          intent_pro = ''create_order'',
          data_pro = [(''order_id'', PyInt 7)],
          request_id_pro = ''r1''\<rparr>"
proof -
  let ?r = "\<lparr>intent = ''create_order'', entities = [(''quantity'', PyInt 2)]\<rparr>"
  let ?d = "dispatch_intent [(''create_order'', bare_handler)] :: nat dispatcher"
  have 1: "user_id_pri legacy_input = id_user alice" by (simp add: legacy_input_def alice_def)
  have 2: "get_intent_and_entities canned_client (text_pri legacy_input)
             (session_id_pri legacy_input) = Inr ?r"
    by (simp add: canned_client_def)
  have 3: "?d (intent ?r) (entities ?r) (id_user alice) =
             ([Handler_executed ''create_order'' [(''quantity'', PyInt 2)] ''alice''],
              Inr [(''order_id'', PyInt 7)])"
    by (simp add: dispatch_intent_def bare_handler_def alice_def)
  from legacy_process_request_output [where dispatch = ?d and request_id = "''r1''", OF 1 2 3]
  obtain out where
    "snd (legacy_process_request legacy_input alice canned_client ?d ''r1'') = Inr out"
    "status_pro out = PyStr ''success''"
    "message_pro out = PyStr (''Action for intent '' @ sq @ ''create_order'' @ sq @ '' completed.'')"
    "intent_pro out = ''create_order''"
    "data_pro out = [(''order_id'', PyInt 7)]"
    "request_id_pro out = ''r1''"
    by auto
  then show ?thesis by (cases out) simp
qed


section \<open>Unroutable intents\<close>

text \<open>
  C6. With the dispatcher modelled from the spec: when the resolved intent has no
  handler in the registry, \<open>legacy_process_request\<close> rejects with the 400 client error
  made from the unroutable-intent error, which is not the 500 of the server errors, and
  the trace holds the extraction call only: no handler is executed.
\<close>

theorem legacy_process_request_unroutable:
  assumes "user_id_pri request_data = id_user current_user"
    and "get_intent_and_entities client (text_pri request_data) (session_id_pri request_data)
           = Inr llm_response"
    and "map_of registry (intent llm_response) = None"
  shows "legacy_process_request request_data current_user client (dispatch_intent registry) request_id
           = ([LLM_get_intent_and_entities (text_pri request_data) (session_id_pri request_data)],
              Inl (HTTPException 400 (str_exn (UnroutableIntent (intent llm_response)))))
         \<and> filter is_Handler_executed
             (fst (legacy_process_request request_data current_user client
                     (dispatch_intent registry) request_id)) = []
         \<and> HTTP_400_BAD_REQUEST \<noteq> HTTP_500_INTERNAL_SERVER_ERROR"
  using assms
  by (simp add: legacy_process_request_authorized legacy_process_request_try_def
      dispatch_intent_def legacy_process_request_except_def http_codes)

theorem legacy_process_request_unroutable_witness:
  "legacy_process_request legacy_input alice canned_client
     (dispatch_intent [(''cancel_order'', bare_handler)]) ''r1''
   = ([LLM_get_intent_and_entities ''two pizzas'' ''s1''],
      Inl (HTTPException 400 ''create_order''))"
proof -
  let ?r = "\<lparr>intent = ''create_order'', entities = [(''quantity'', PyInt 2)]\<rparr>"
  have 1: "user_id_pri legacy_input = id_user alice" by (simp add: legacy_input_def alice_def)
  have 2: "get_intent_and_entities canned_client (text_pri legacy_input)
             (session_id_pri legacy_input) = Inr ?r"
    by (simp add: canned_client_def)
  have 3: "map_of [(''cancel_order'', bare_handler)] (intent ?r) = None" by simp
  show ?thesis
    using legacy_process_request_unroutable [OF 1 2 3, of "''r1''"]
    by (simp add: legacy_input_def)
qed


section \<open>The timestamp of the response\<close>

text \<open>
  The timestamp is tested by truthiness (line 93), so a timestamp that is present but
  empty is replaced as an absent one is. Here the payload carries the timestamp \<^verbatim>\<open>""\<close>
  and the response carries the time of the clock.
\<close>

theorem process_request_empty_timestamp_counterexample:
  "timestamp (metadata (payload_of None (Some ''hello'') ''alice'' (Some []))) = Some []
   \<and> process_request (payload_of None (Some ''hello'') ''alice'' (Some [])) alice canned_client
        ''2026-01-01T00:00:00+00:00'' =
      ([LLM_process_request [\<lparr>type_message = ''text'', role = ''user'', content = ''hello''\<rparr>]
          ''chat'' None None None, Clock_now],
       Inr \<lparr>messages_rp = [reply],
            metadata_rp = \<lparr>session_id = ''s1'', user_id = ''alice'', mode = ''chat'',
                            timestamp = Some ''2026-01-01T00:00:00+00:00''\<rparr>,
            usage_rp = None\<rparr>)"
  by (simp add: process_request_def process_request_try_def resolve_messages_def
      truthy_str_def payload_of_def alice_def canned_client_def)

text \<open>
  C7, amended. For every run of \<open>process_request\<close> that returns a response, with \<open>now\<close>
  the ISO text of the clock (never empty): if the timestamp of the payload is absent
  or the empty string, the timestamp of the response is \<open>now\<close>, hence not empty, and
  the clock was read once, after the one LLM call; otherwise the metadata of the
  response is the metadata of the payload, timestamp included, and the clock was not
  read. The other fields of the metadata are echoed in both cases.
\<close>

theorem process_request_timestamp:
  assumes "process_request payload current_user client now = (evs, Inr result)"
    and "now \<noteq> []"
  shows "(if timestamp (metadata payload) = None \<or> timestamp (metadata payload) = Some []
          then timestamp (metadata_rp result) = Some now
               \<and> timestamp (metadata_rp result) \<noteq> Some []
               \<and> (\<exists>call. is_LLM_call call \<and> evs = [call, Clock_now])
          else metadata_rp result = metadata payload
               \<and> (\<exists>call. is_LLM_call call \<and> evs = [call]))
         \<and> session_id (metadata_rp result) = session_id (metadata payload)
         \<and> user_id (metadata_rp result) = user_id (metadata payload)
         \<and> mode (metadata_rp result) = mode (metadata payload)"
proof -
  from process_request_returns_metadata [OF assms(1)]
  obtain call where call: "is_LLM_call call"
    and evs: "evs = call # (if truthy_str (timestamp (metadata payload)) then []
                            else [Clock_now])"
    and md: "metadata_rp result =
               (if truthy_str (timestamp (metadata payload)) then metadata payload
                else (metadata payload)\<lparr>timestamp := Some now\<rparr>)"
    by auto
  show ?thesis
  proof (cases "truthy_str (timestamp (metadata payload))")
    case True
    with call show ?thesis
      unfolding evs md by (auto simp: truthy_str_iff)
  next
    case False
    with call assms(2) show ?thesis
      unfolding evs md by (auto simp: truthy_str_iff)
  qed
qed

theorem process_request_timestamp_witness:
  "process_request (payload_of None (Some ''hello'') ''alice'' None) alice canned_client
     ''2026-01-01T00:00:00+00:00'' =
     ([LLM_process_request [\<lparr>type_message = ''text'', role = ''user'', content = ''hello''\<rparr>]
         ''chat'' None None None, Clock_now],
      Inr \<lparr>messages_rp = [reply],
           metadata_rp = \<lparr>session_id = ''s1'', user_id = ''alice'', mode = ''chat'',
                           timestamp = Some ''2026-01-01T00:00:00+00:00''\<rparr>,
           usage_rp = None\<rparr>)
   \<and> timestamp (metadata_rp \<lparr>messages_rp = [reply],
           metadata_rp = \<lparr>session_id = ''s1'', user_id = ''alice'', mode = ''chat'',
                           timestamp = Some ''2026-01-01T00:00:00+00:00''\<rparr>,
           usage_rp = None\<rparr>) \<noteq> Some []"
proof -
  let ?p = "payload_of None (Some ''hello'') ''alice'' None"
  let ?now = "''2026-01-01T00:00:00+00:00''"
  let ?call = "LLM_process_request
                 [\<lparr>type_message = ''text'', role = ''user'', content = ''hello''\<rparr>]
                 ''chat'' None None None :: nat event"
  let ?res = "\<lparr>messages_rp = [reply],
       metadata_rp = \<lparr>session_id = ''s1'', user_id = ''alice'', mode = ''chat'',
                       timestamp = Some ?now\<rparr>,
       usage_rp = None\<rparr>"
  have 1: "process_request ?p alice canned_client ?now = ([?call, Clock_now], Inr ?res)"
    by (simp add: process_request_def process_request_try_def resolve_messages_def
        truthy_str_def payload_of_def alice_def canned_client_def)
  have 2: "?now \<noteq> []" by simp
  have "timestamp (metadata_rp ?res) \<noteq> Some []"
    using process_request_timestamp [OF 1 2] by (simp add: payload_of_def)
  with 1 show ?thesis by (intro conjI)
qed


section \<open>The worker pool in the health check\<close>

text \<open>
  The marker the health check stores for the worker pool is \<^verbatim>\<open>check_not_implemented\<close>
  (line 76), which is none of \<^verbatim>\<open>ok\<close>, \<^verbatim>\<open>error\<close>, \<^verbatim>\<open>unavailable\<close>, \<^verbatim>\<open>not_checked\<close>.
\<close>

theorem worker_pool_marker_counterexample:
  "run_checks silent_logger Probe_ok Probe_ok =
     Inr \<lparr>component_statuses =
            [(''database_mongodb'', ''ok''), (''cache_broker_redis'', ''ok''),
             (''celery_workers'', ''check_not_implemented'')],
          overall_ok = True\<rparr>
   \<and> ''check_not_implemented'' \<notin> {''ok'', ''error'', ''unavailable'', ''not_checked''}"
  by (simp add: run_checks_both_ok)

text \<open>
  C8, amended. In every health check whose run reaches line 76, which is every run in
  which no log call of a probe failure raises: the worker pool is recorded with the
  marker \<^verbatim>\<open>check_not_implemented\<close>, which differs from the values of a probed component;
  every recorded value is one of \<^verbatim>\<open>ok\<close>, \<^verbatim>\<open>error\<close>, \<^verbatim>\<open>check_not_implemented\<close>; recording
  the worker pool leaves the verdict flag as it was, and the verdict is \<^verbatim>\<open>ok\<close> exactly
  when the datastore probe and the cache probe both returned.
\<close>

theorem worker_pool_not_checked:
  assumes "run_checks log_error db redis = Inr h"
  shows "map_of (component_statuses h) ''celery_workers'' = Some ''check_not_implemented''
         \<and> ''check_not_implemented'' \<notin> {''ok'', ''error'', ''unavailable''}
         \<and> set (map snd (component_statuses h))
             \<subseteq> {''ok'', ''error'', ''check_not_implemented''}
         \<and> overall_ok (check_celery h') = overall_ok h'
         \<and> overall_ok h = (db = Probe_ok \<and> redis = Probe_ok)
         \<and> final_status h = (if db = Probe_ok \<and> redis = Probe_ok then ''ok'' else ''error'')"
proof -
  note h = run_checks_returns [OF assms]
  have "map_of (component_statuses h) ''celery_workers'' = Some ''check_not_implemented''"
    by (subst h) simp
  moreover have "set (map snd (component_statuses h))
                   \<subseteq> {''ok'', ''error'', ''check_not_implemented''}"
    by (subst h) simp
  moreover have "overall_ok h = (db = Probe_ok \<and> redis = Probe_ok)"
    by (subst h) simp
  moreover have "overall_ok (check_celery h') = overall_ok h'"
    by (simp add: check_celery_def)
  ultimately show ?thesis
    by (simp add: final_status_def)
qed

theorem worker_pool_not_checked_witness:
  "run_checks (loguru_error plain_render) (Probe_raises ''connection refused'') Probe_ok =
     Inr \<lparr>component_statuses =
            [(''database_mongodb'', ''error''), (''cache_broker_redis'', ''ok''),
             (''celery_workers'', ''check_not_implemented'')],
          overall_ok = False\<rparr>
   \<and> map_of [(''database_mongodb'', ''error''), (''cache_broker_redis'', ''ok''),
              (''celery_workers'', ''check_not_implemented'')] ''celery_workers''
       = Some ''check_not_implemented''
   \<and> final_status \<lparr>component_statuses =
            [(''database_mongodb'', ''error''), (''cache_broker_redis'', ''ok''),
             (''celery_workers'', ''check_not_implemented'')],
          overall_ok = False\<rparr> = ''error''"
proof -
  let ?h = "\<lparr>component_statuses =
            [(''database_mongodb'', ''error''), (''cache_broker_redis'', ''ok''),
             (''celery_workers'', ''check_not_implemented'')],
          overall_ok = False\<rparr>"
  have "loguru_error plain_render (''MongoDB connection check failed: '' @ ''connection refused'')
          = None"
    by (intro loguru_error_no_brace) simp_all
  from run_checks_datastore_down
    [where log_error = "loguru_error plain_render" and e = "''connection refused''", OF this]
  have 1: "run_checks (loguru_error plain_render) (Probe_raises ''connection refused'') Probe_ok
             = Inr ?h" .
  from worker_pool_not_checked [OF 1]
  have "map_of (component_statuses ?h) ''celery_workers'' = Some ''check_not_implemented''"
    and "final_status ?h = ''error''"
    by simp_all
  with 1 show ?thesis by simp
qed


section \<open>The effective message sequence\<close>

text \<open>
  C9. With a matching user id, no messages (\<^verbatim>\<open>None\<close> or the empty list) and the input
  \<^verbatim>\<open>hello\<close>, the effective message sequence is the single message of type \<^verbatim>\<open>text\<close>,
  role \<^verbatim>\<open>user\<close> and content \<^verbatim>\<open>hello\<close>, and the first collaborator call of
  \<open>process_request\<close> is the LLM call with exactly that sequence.
\<close>

theorem process_request_input_hello:
  assumes "user_id (metadata payload) = id_user current_user"
    and "messages payload = None \<or> messages payload = Some []"
    and "input payload = Some ''hello''"
  shows "resolve_messages payload =
           Inr [\<lparr>type_message = ''text'', role = ''user'', content = ''hello''\<rparr>]
         \<and> take 1 (fst (process_request payload current_user client now)) =
             [LLM_process_request
                [\<lparr>type_message = ''text'', role = ''user'', content = ''hello''\<rparr>]
                (mode (metadata payload)) (model payload) (temperature payload)
                (max_tokens payload)]"
proof -
  have r: "resolve_messages payload =
             Inr [\<lparr>type_message = ''text'', role = ''user'', content = ''hello''\<rparr>]"
    using resolve_messages_input [OF assms(2), of "CHR ''h''" "''ello''"] assms(3) by simp
  with process_request_calls_llm [OF assms(1) r] show ?thesis by simp
qed

theorem process_request_input_hello_witness:
  "take 1 (fst (process_request (payload_of (Some []) (Some ''hello'') ''alice'' None) alice
                  canned_client ''t'')) =
     [LLM_process_request [\<lparr>type_message = ''text'', role = ''user'', content = ''hello''\<rparr>]
        ''chat'' None None None]"
proof -
  let ?p = "payload_of (Some []) (Some ''hello'') ''alice'' None"
  have 1: "user_id (metadata ?p) = id_user alice" by (simp add: payload_of_def alice_def)
  have 2: "messages ?p = None \<or> messages ?p = Some []" by (simp add: payload_of_def)
  have 3: "input ?p = Some ''hello''" by (simp add: payload_of_def)
  show ?thesis
    using process_request_input_hello [OF 1 2 3, of canned_client "''t''"]
    by (simp add: payload_of_def)
qed

text \<open>
  C10. The effective message sequence is resolved by truthiness, messages first: a
  non-empty list of messages is used whatever the input is; without messages (\<^verbatim>\<open>None\<close>
  or the empty list) a non-empty input becomes the single user message; without messages
  and with an input that is \<^verbatim>\<open>None\<close> or the empty string, the branch of line 76 is taken,
  which raises the 400 inside the \<^verbatim>\<open>try\<close> block before any LLM call. With a matching
  user id, the sequence passed to the LLM resolver is the resolved one.
\<close>

theorem effective_messages_by_truthiness:
  "(messages payload = Some (m # ms) \<longrightarrow> resolve_messages payload = Inr (m # ms))
   \<and> ((messages payload = None \<or> messages payload = Some []) \<and> input payload = Some (c # cs)
        \<longrightarrow> resolve_messages payload =
              Inr [\<lparr>type_message = ''text'', role = ''user'', content = c # cs\<rparr>])
   \<and> ((messages payload = None \<or> messages payload = Some [])
        \<and> (input payload = None \<or> input payload = Some [])
        \<longrightarrow> resolve_messages payload =
              Inl (HTTPException 400
                    (''Request must contain either '' @ sq @ ''input'' @ sq @ '' or '' @ sq
                     @ ''messages'' @ sq))
            \<and> fst (process_request payload current_user client now) = [])
   \<and> (user_id (metadata payload) = id_user current_user
        \<longrightarrow> (case resolve_messages payload of
               Inr msgs \<Rightarrow>
                 take 1 (fst (process_request payload current_user client now)) =
                   [LLM_process_request msgs (mode (metadata payload)) (model payload)
                      (temperature payload) (max_tokens payload)]
             | Inl e \<Rightarrow> fst (process_request payload current_user client now) = []))"
proof (intro conjI impI)
  assume "messages payload = Some (m # ms)"
  then show "resolve_messages payload = Inr (m # ms)"
    by (rule resolve_messages_nonempty)
next
  assume "(messages payload = None \<or> messages payload = Some []) \<and> input payload = Some (c # cs)"
  then show "resolve_messages payload =
               Inr [\<lparr>type_message = ''text'', role = ''user'', content = c # cs\<rparr>]"
    using resolve_messages_input by blast
next
  assume a: "(messages payload = None \<or> messages payload = Some [])
             \<and> (input payload = None \<or> input payload = Some [])"
  then show r: "resolve_messages payload =
               Inl (HTTPException 400
                     (''Request must contain either '' @ sq @ ''input'' @ sq @ '' or '' @ sq
                      @ ''messages'' @ sq))"
    using resolve_messages_missing by blast
  from process_request_try_unresolved [OF r]
  show "fst (process_request payload current_user client now) = []"
    by (simp add: process_request_def)
next
  assume u: "user_id (metadata payload) = id_user current_user"
  show "case resolve_messages payload of
          Inr msgs \<Rightarrow>
            take 1 (fst (process_request payload current_user client now)) =
              [LLM_process_request msgs (mode (metadata payload)) (model payload)
                 (temperature payload) (max_tokens payload)]
        | Inl e \<Rightarrow> fst (process_request payload current_user client now) = []"
  proof (cases "resolve_messages payload")
    case (Inl e)
    with process_request_try_unresolved [OF Inl] show ?thesis
      by (simp add: process_request_def)
  next
    case (Inr msgs)
    with process_request_calls_llm [OF u Inr] show ?thesis by simp
  qed
qed

theorem effective_messages_by_truthiness_witness:
  "resolve_messages (payload_of (Some [reply]) (Some ''ignored'') ''alice'' None) = Inr [reply]
   \<and> resolve_messages (payload_of (Some []) (Some ''hi'') ''alice'' None) =
       Inr [\<lparr>type_message = ''text'', role = ''user'', content = ''hi''\<rparr>]
   \<and> resolve_messages (payload_of (Some []) (Some []) ''alice'' None) =
       Inl (HTTPException 400
             (''Request must contain either '' @ sq @ ''input'' @ sq @ '' or '' @ sq
              @ ''messages'' @ sq))
   \<and> take 1 (fst (process_request (payload_of (Some [reply]) (Some ''ignored'') ''alice'' None)
                     alice canned_client ''t'')) =
       [LLM_process_request [reply] ''chat'' None None None]"
proof -
  let ?both = "payload_of (Some [reply]) (Some ''ignored'') ''alice'' None"
  let ?legacy = "payload_of (Some []) (Some ''hi'') ''alice'' None"
  let ?neither = "payload_of (Some []) (Some []) ''alice'' None"
  note both = effective_messages_by_truthiness
    [of ?both reply "[]" "CHR ''i''" "''gnored''" alice canned_client "''t''"]
  note legacy = effective_messages_by_truthiness
    [of ?legacy reply "[]" "CHR ''h''" "''i''" alice canned_client "''t''"]
  note neither = effective_messages_by_truthiness
    [of ?neither reply "[]" "CHR ''h''" "''i''" alice canned_client "''t''"]
  have 1: "resolve_messages ?both = Inr [reply]"
    using both by (simp add: payload_of_def)
  have 2: "resolve_messages ?legacy =
             Inr [\<lparr>type_message = ''text'', role = ''user'', content = ''hi''\<rparr>]"
    using legacy by (simp add: payload_of_def)
  have 3: "resolve_messages ?neither =
             Inl (HTTPException 400
                   (''Request must contain either '' @ sq @ ''input'' @ sq @ '' or '' @ sq
                    @ ''messages'' @ sq))"
    using neither by (simp add: payload_of_def)
  have u: "user_id (metadata ?both) = id_user alice"
    by (simp add: payload_of_def alice_def)
  from both u have "case resolve_messages ?both of
      Inr msgs \<Rightarrow>
        take 1 (fst (process_request ?both alice canned_client ''t'')) =
          [LLM_process_request msgs (mode (metadata ?both)) (model ?both)
             (temperature ?both) (max_tokens ?both)]
    | Inl e \<Rightarrow> fst (process_request ?both alice canned_client ''t'') = []"
    by (elim conjE) (erule mp)
  then have 4: "take 1 (fst (process_request ?both alice canned_client ''t'')) =
                  [LLM_process_request [reply] ''chat'' None None None]"
    unfolding 1 by (simp add: payload_of_def)
  from 1 2 3 4 show ?thesis by (intro conjI)
qed

end
